theory Spec2Isabelle
  imports Main "HOL-Library.Word"
begin

unbundle bit_operations_syntax

section \<open>The virtual-table adapter of sqlite-vector (virtual\_table.cpp)\<close>

text \<open>
  The adapter is embedded function by function. A hook of the adapter takes the objects
  it reaches through its pointer arguments and returns them updated, inside an
  \<open>outcome\<close> that also records the ways a C++ function can end without returning:
  an exception that nobody catches, a failed assertion, a read past the end of \<open>argv\<close>.
\<close>

subsection \<open>Machine types\<close>

type_synonym byte = "8 word"
type_synonym c_int = "32 word"            \<comment> \<open>\<open>int\<close>, read with \<open>sint\<close>\<close>
type_synonym sqlite3_int64 = "64 word"    \<comment> \<open>\<open>sqlite3_int64\<close>, \<open>Cursor::Rowid\<close>; read with \<open>sint\<close>\<close>
type_synonym float = "32 word"            \<comment> \<open>the bit pattern of an IEEE-754 single\<close>
type_synonym Vector = "float list"        \<comment> \<open>\<open>Vector\<close>: the components; \<open>dim()\<close> is \<open>length\<close>\<close>

abbreviation SQLITE_OK :: int where "SQLITE_OK \<equiv> 0"
abbreviation SQLITE_ERROR :: int where "SQLITE_ERROR \<equiv> 1"

text \<open>\<open>std::numeric_limits<Cursor::Rowid>::max()\<close> with \<open>Rowid = int64_t\<close>.\<close>

definition Rowid_max :: int where
  "Rowid_max = 2 ^ 63 - 1"

text \<open>\<open>enum ColumnIndexInTable\<close>, \<open>enum IndexConstraintUsage\<close>, \<open>enum FunctionConstraint\<close>.\<close>

definition kColumnIndexVector :: c_int where "kColumnIndexVector = 0"
definition kColumnIndexDistance :: c_int where "kColumnIndexDistance = 1"
definition kVector :: c_int where "kVector = 1"
definition kRowid :: c_int where "kRowid = 2"

text \<open>\<open>SQLITE_INDEX_CONSTRAINT_FUNCTION\<close> of sqlite3.h is 150; \<open>op\<close> is an unsigned char.\<close>

definition kFunctionConstraintVectorSearchKnn :: byte where
  "kFunctionConstraintVectorSearchKnn = 150"

definition kKnnParamType :: string where
  "kKnnParamType = ''vector_search_knn_param''"

subsection \<open>How a hook ends\<close>

text \<open>
  The exceptions of the index library (\<open>std::runtime_error\<close>), named after the error
  kinds of the specification.
\<close>

datatype runtime_error = CapacityExceeded | LabelCollision | NotFound

text \<open>
  Modelled from the spec: the macro \<open>SQLITE_VECTOR_ASSERT\<close>, whose header macros.h is
  missing. The invariants of the adapter are enforced by assertion and are fatal if
  violated: a hook that reaches an assertion whose condition is false ends there, with
  \<open>AssertionFailed\<close>. The assertions that a pointer argument is not null hold by
  construction here and are left out.

  The other ways a hook ends:
  \<open>Return rc s\<close>: the hook returned \<open>rc\<close> and left the objects it works on as \<open>s\<close>.
  \<open>Uncaught e s\<close>: exception \<open>e\<close> left the hook, the objects being \<open>s\<close> at that moment.
  \<open>OutOfBounds\<close>: the hook read \<open>argv[i]\<close> with \<open>i \<ge> argc\<close>.
\<close>

datatype 's outcome =
    Return int 's
  | Uncaught runtime_error 's
  | AssertionFailed
  | OutOfBounds

subsection \<open>Host values\<close>

datatype sqlite_type = SQLITE_INTEGER | SQLITE_FLOAT | SQLITE_TEXT | SQLITE_BLOB | SQLITE_NULL

record KnnParam =
  knn_query_vector :: Vector
  knn_k :: "32 word"

text \<open>
  A \<open>sqlite3_value\<close> is opaque to the adapter, which only observes it through four
  functions of the host: \<open>sqlite3_value_type\<close>, \<open>sqlite3_value_int64\<close>,
  \<open>sqlite3_value_blob\<close> with \<open>sqlite3_value_bytes\<close>, and \<open>sqlite3_value_pointer\<close>.
  The record holds what each of them answers; \<open>value_pointer\<close> is the pointer the value
  carries, if any, with the type string it was stored under.
\<close>

record sqlite3_value =
  value_type :: sqlite_type
  value_int64 :: sqlite3_int64
  value_blob :: "byte list"
  value_pointer :: "(string \<times> KnnParam) option"

text \<open>\<open>sqlite3_value_pointer(v, type)\<close>: the pointer when the type strings agree, else null.\<close>

definition sqlite3_value_pointer :: "sqlite3_value \<Rightarrow> string \<Rightarrow> KnnParam option" where
  "sqlite3_value_pointer v ty =
     (case value_pointer v of
        None \<Rightarrow> None
      | Some (tag, p) \<Rightarrow> if tag = ty then Some p else None)"

text \<open>What \<open>sqlite3_result_double\<close>, \<open>_blob\<close> and \<open>_text\<close> leave in a \<open>sqlite3_context\<close>.\<close>

datatype sqlite3_result = ResultDouble float | ResultBlob "byte list" | ResultText string

subsection \<open>Formatting\<close>

definition digit :: "nat \<Rightarrow> char" where
  "digit n = ''0123456789'' ! n"

function dec_nat :: "nat \<Rightarrow> string" where
  "dec_nat n = (if n < 10 then [digit n] else dec_nat (n div 10) @ [digit (n mod 10)])"
  by pat_completeness auto
termination
  by (relation "measure id") auto

declare dec_nat.simps [simp del]

text \<open>The conversions \<open>%d\<close> and \<open>%lld\<close> applied to a signed integer.\<close>

definition fmt_d :: "int \<Rightarrow> string" where
  "fmt_d i = (if i < 0 then CHR ''-'' # dec_nat (nat (- i)) else dec_nat (nat i))"

text \<open>
  \<open>%d\<close> of \<open>sqlite3_vmprintf\<close> applied to a \<open>size_t\<close> argument: the conversion reads
  an \<open>int\<close>, the low 32 bits of the argument.
\<close>

definition fmt_d_size :: "nat \<Rightarrow> string" where
  "fmt_d_size n = fmt_d (sint (word_of_nat n :: c_int))"

subsection \<open>Vector (vector.cpp)\<close>

fun decode_floats :: "byte list \<Rightarrow> Vector" where
  "decode_floats (b0 # b1 # b2 # b3 # bs) =
     (ucast b0 OR push_bit 8 (ucast b1) OR push_bit 16 (ucast b2) OR push_bit 24 (ucast b3))
       # decode_floats bs"
| "decode_floats bs = []"

definition encode_float :: "float \<Rightarrow> byte list" where
  "encode_float w = [ucast w, ucast (drop_bit 8 w), ucast (drop_bit 16 w), ucast (drop_bit 24 w)]"

text \<open>
  Modelled from the spec: \<open>Vector::ToBlob\<close>, whose source file vector.cpp is missing; the
  blob is the contiguous little-endian bytes of the components.
\<close>

definition ToBlob :: "Vector \<Rightarrow> byte list" where
  "ToBlob v = concat (map encode_float v)"

subsection \<open>The collaborators that are taken as parameters\<close>

text \<open>
  Three functions that the adapter calls are parameters of the model:
  \<^item> \<open>Normalize\<close> is \<open>Vector::Normalize\<close>, floating-point arithmetic of vector.cpp;
  \<^item> \<open>decode_error_message\<close> is the text of the status with which \<open>Vector::FromBlob\<close>
    rejects a blob;
  \<^item> \<open>searchKnnCloserFirst\<close> is the search of the index library over the stored
    points, for a query vector and a number \<open>k\<close> of neighbours.
\<close>

record (overloaded) 'l collaborators =
  Normalize :: "Vector \<Rightarrow> Vector"
  decode_error_message :: "byte list \<Rightarrow> string"
  searchKnnCloserFirst :: "('l word \<times> Vector) list \<Rightarrow> Vector \<Rightarrow> 32 word \<Rightarrow> (float \<times> 'l word) list"

text \<open>
  Modelled from the spec: \<open>Vector::FromBlob\<close>, whose source file vector.cpp is missing. It
  succeeds iff the blob is not empty and its length is a multiple of 4, and then yields a
  vector of dimension \<open>length blob div 4\<close>. \<open>Inl\<close> is the message of the error status.
\<close>

definition FromBlob :: "'l collaborators \<Rightarrow> byte list \<Rightarrow> string + Vector" where
  "FromBlob ext blob =
     (if 0 < length blob \<and> length blob mod 4 = 0 then Inr (decode_floats blob)
      else Inl (decode_error_message ext blob))"

subsection \<open>The index (hnswlib)\<close>

text \<open>
  The index keeps the points in insertion order under labels of type \<open>hnswlib::labeltype\<close>,
  which is \<open>size_t\<close>: a word whose width \<open>'l\<close> is the platform's.
\<close>

record (overloaded) 'l HierarchicalNSW =
  max_elements :: nat
  points :: "('l word \<times> Vector) list"

text \<open>
  Modelled from the spec: \<open>HierarchicalNSW::addPoint\<close> of the index library. It fails if
  the label collides with an existing label or if the size would exceed
  \<open>max_elements\<close>; the library fails by throwing \<open>std::runtime_error\<close>, here \<open>Inl\<close>.
\<close>

definition addPoint ::
  "'l::len HierarchicalNSW \<Rightarrow> Vector \<Rightarrow> 'l word \<Rightarrow> runtime_error + 'l HierarchicalNSW" where
  "addPoint idx v label =
     (if map_of (points idx) label \<noteq> None then Inl LabelCollision
      else if max_elements idx \<le> length (points idx) then Inl CapacityExceeded
      else Inr (idx\<lparr>points := points idx @ [(label, v)]\<rparr>))"

text \<open>
  Modelled from the spec: \<open>HierarchicalNSW::getDataByLabel\<close>, which throws
  \<open>std::runtime_error\<close> for a label that is not in the index.
\<close>

definition getDataByLabel :: "'l::len HierarchicalNSW \<Rightarrow> 'l word \<Rightarrow> runtime_error + Vector" where
  "getDataByLabel idx label =
     (case map_of (points idx) label of None \<Rightarrow> Inl NotFound | Some v \<Rightarrow> Inr v)"

subsection \<open>The virtual table and its cursor (virtual\_table.h)\<close>

text \<open>
  Of the vector space the adapter reads the dimension and the \<open>normalize\<close> flag. The
  members \<open>space_\<close>, \<open>index_\<close> and \<open>rowids_\<close> of the class lose their last character
  here, as does \<open>max_elements_\<close> of the index.
\<close>

record VectorSpace =
  space_dimension :: nat
  space_normalize :: bool

record (overloaded) 'l VirtualTable =
  zErrMsg :: "string option"              \<comment> \<open>\<open>sqlite3_vtab::zErrMsg\<close>, \<open>None\<close> when null\<close>
  space :: VectorSpace
  index :: "'l HierarchicalNSW"
  rowids :: "sqlite3_int64 set"

definition dimension :: "'l VirtualTable \<Rightarrow> nat" where
  "dimension vtab = space_dimension (space vtab)"

text \<open>
  The cursor. \<open>current_row\<close> is an iterator into \<open>result\<close>: here the position it points
  to, \<open>result.cend()\<close> being \<open>length result\<close>.
\<close>

record Cursor =
  result :: "(float \<times> sqlite3_int64) list"
  current_row :: nat
  query_vector :: Vector

text \<open>The constructor \<open>Cursor(vtab)\<close>, which \<open>Open\<close> calls.\<close>

definition Cursor_new :: Cursor where
  "Cursor_new = \<lparr>result = [], current_row = length ([] :: (float \<times> sqlite3_int64) list),
                  query_vector = []\<rparr>"

text \<open>\<open>SetZErrMsg\<close>: frees the previous message and stores the formatted one.\<close>

definition SetZErrMsg :: "'l VirtualTable \<Rightarrow> string \<Rightarrow> 'l VirtualTable" where
  "SetZErrMsg vtab msg = vtab\<lparr>zErrMsg := Some msg\<rparr>"

subsection \<open>Open, Rowid, Eof, Next\<close>

definition Open :: "'l VirtualTable \<Rightarrow> Cursor outcome" where
  "Open vtab = Return SQLITE_OK Cursor_new"

text \<open>\<open>Rowid\<close> works on \<open>*pRowid\<close>.\<close>

definition Rowid :: "Cursor \<Rightarrow> sqlite3_int64 \<Rightarrow> sqlite3_int64 outcome" where
  "Rowid cursor pRowid =
     (if current_row cursor \<noteq> length (result cursor)
      then Return SQLITE_OK (snd (result cursor ! current_row cursor))
      else Return SQLITE_ERROR pRowid)"

definition Eof :: "Cursor \<Rightarrow> bool" where
  "Eof cursor \<longleftrightarrow> current_row cursor = length (result cursor)"

definition Next :: "Cursor \<Rightarrow> Cursor outcome" where
  "Next cursor =
     Return SQLITE_OK
       (if current_row cursor \<noteq> length (result cursor)
        then cursor\<lparr>current_row := current_row cursor + 1\<rparr> else cursor)"

subsection \<open>GetVectorByRowid and Column\<close>

text \<open>
  \<open>GetVectorByRowid\<close> returns a \<open>StatusOr<Vector>\<close> (\<open>Inl\<close> the status, made from the
  caught exception), or stops at its assertion on the size of the vector: \<open>None\<close>.
\<close>

definition GetVectorByRowid ::
  "'l::len VirtualTable \<Rightarrow> sqlite3_int64 \<Rightarrow> (runtime_error + Vector) option" where
  "GetVectorByRowid vtab rowid =
     (case getDataByLabel (index vtab) (ucast rowid) of
        Inl ex \<Rightarrow> Some (Inl NotFound)
      | Inr vec \<Rightarrow> if length vec = dimension vtab then Some (Inr vec) else None)"

text \<open>\<open>Column\<close> works on the result slot of \<open>pCtx\<close> (\<open>None\<close>: nothing written yet).\<close>

definition Column ::
  "'l::len VirtualTable \<Rightarrow> Cursor \<Rightarrow> sqlite3_result option \<Rightarrow> c_int \<Rightarrow> sqlite3_result option outcome" where
  "Column vtab cursor pCtx N =
     (if current_row cursor = length (result cursor) then Return SQLITE_ERROR pCtx
      else if kColumnIndexDistance = N then
        Return SQLITE_OK (Some (ResultDouble (fst (result cursor ! current_row cursor))))
      else if kColumnIndexVector = N then
        (let rowid = snd (result cursor ! current_row cursor) in
         case GetVectorByRowid vtab rowid of
           None \<Rightarrow> AssertionFailed
         | Some (Inr vector) \<Rightarrow> Return SQLITE_OK (Some (ResultBlob (ToBlob vector)))
         | Some (Inl status) \<Rightarrow>
             Return SQLITE_ERROR
               (Some (ResultText (''Can't find vector with rowid '' @ fmt_d (sint rowid)))))
      else
        Return SQLITE_ERROR (Some (ResultText (''Invalid column index: '' @ fmt_d (sint N)))))"

subsection \<open>Filter\<close>

text \<open>
  \<open>Filter\<close> works on the table (its error message) and on the cursor. The labels that
  the search returns become the row identifiers of the result by conversion to 64 bits.
  The assertion that the cursor's result is empty is evaluated after the search, as in
  the source.
\<close>

definition Filter ::
  "'l::len collaborators \<Rightarrow> 'l VirtualTable \<Rightarrow> Cursor \<Rightarrow> c_int \<Rightarrow> sqlite3_value list
     \<Rightarrow> ('l VirtualTable \<times> Cursor) outcome" where
  "Filter ext vtab cursor idxNum argv =
     (if idxNum = kVector then
        (if length argv \<le> 0 then OutOfBounds
         else case sqlite3_value_pointer (argv ! 0) kKnnParamType of
           None \<Rightarrow>
             Return SQLITE_ERROR
               (SetZErrMsg vtab ''knn_param() should be used for the 2nd param of knn_search'',
                cursor)
         | Some param \<Rightarrow>
             (let qv = knn_query_vector param; k = knn_k param in
              if length qv \<noteq> dimension vtab then
                Return SQLITE_ERROR
                  (SetZErrMsg vtab
                     (''Dimension mismatch: query vector has dimension '' @ fmt_d_size (length qv)
                        @ '', but the table has dimension '' @ fmt_d_size (dimension vtab)),
                   cursor)
              else
                (let cursor1 = cursor\<lparr>query_vector :=
                                 (if space_normalize (space vtab) then Normalize ext qv else qv)\<rparr>;
                     knn = searchKnnCloserFirst ext (points (index vtab)) (query_vector cursor1) k
                 in if result cursor1 \<noteq> [] then AssertionFailed
                    else Return SQLITE_OK
                           (vtab, cursor1\<lparr>result := map (\<lambda>(d, l). (d, ucast l)) knn,
                                            current_row := 0\<rparr>))))
      else
        Return SQLITE_ERROR
          (SetZErrMsg vtab (''Invalid index number: '' @ fmt_d (sint idxNum)), cursor))"

subsection \<open>Update\<close>

text \<open>
  \<open>Update\<close> works on the table and on \<open>*pRowid\<close>. \<open>argc\<close> is the length of \<open>argv\<close>.
  The row identifier becomes the label by \<open>static_cast<hnswlib::labeltype>\<close>, a
  conversion to the width of the label. No handler surrounds the call of \<open>addPoint\<close>,
  so what it throws leaves \<open>Update\<close>.
\<close>

definition Update ::
  "'l::len collaborators \<Rightarrow> 'l VirtualTable \<Rightarrow> sqlite3_value list \<Rightarrow> sqlite3_int64
     \<Rightarrow> ('l VirtualTable \<times> sqlite3_int64) outcome" where
  "Update ext vtab argv pRowid =
     (if length argv > 1 \<and> value_type (argv ! 0) = SQLITE_NULL then
        (if value_type (argv ! 1) = SQLITE_NULL then
           Return SQLITE_ERROR
             (SetZErrMsg vtab ''rowid must be specified during insertion'', pRowid)
         else
           (let raw_rowid = value_int64 (argv ! 1) in
            if sint raw_rowid > Rowid_max \<or> sint raw_rowid < 0 then
              Return SQLITE_ERROR
                (SetZErrMsg vtab (''rowid '' @ fmt_d (sint raw_rowid) @ '' out of range''), pRowid)
            else
              (let rowid = raw_rowid in
               if length argv \<le> 2 then OutOfBounds
               else if value_type (argv ! 2) \<noteq> SQLITE_BLOB then
                 Return SQLITE_ERROR (SetZErrMsg vtab ''vector must be of type Blob'', rowid)
               else
                 (case FromBlob ext (value_blob (argv ! 2)) of
                    Inr vector \<Rightarrow>
                      if length vector \<noteq> dimension vtab then
                        Return SQLITE_ERROR
                          (SetZErrMsg vtab
                             (''Dimension mismatch: vector has dimension ''
                                @ fmt_d_size (length vector)
                                @ '', but the table has dimension ''
                                @ fmt_d_size (dimension vtab)),
                           rowid)
                      else
                        (case addPoint (index vtab)
                                (if space_normalize (space vtab) then Normalize ext vector
                                 else vector)
                                (ucast rowid) of
                           Inl ex \<Rightarrow> Uncaught ex (vtab, rowid)
                         | Inr index' \<Rightarrow>
                             Return SQLITE_OK
                               (vtab\<lparr>index := index', rowids := insert rowid (rowids vtab)\<rparr>,
                                rowid))
                  | Inl msg \<Rightarrow>
                      Return SQLITE_ERROR
                        (SetZErrMsg vtab (''Failed to perform insertion due to: '' @ msg),
                         rowid)))))
      else
        Return SQLITE_ERROR (SetZErrMsg vtab ''Operation not supported for now'', pRowid))"

subsection \<open>BestIndex\<close>

text \<open>
  Of \<open>sqlite3_index_info\<close> the constraints, their usage entries and \<open>idxNum\<close> are kept:
  \<open>BestIndex\<close> reads and writes nothing else. \<open>nConstraint\<close> is the length of
  \<open>aConstraint\<close>.
\<close>

record sqlite3_index_constraint =
  iColumn :: c_int
  op :: byte
  usable :: byte

record sqlite3_index_constraint_usage =
  argvIndex :: c_int
  omit :: byte

record sqlite3_index_info =
  aConstraint :: "sqlite3_index_constraint list"
  aConstraintUsage :: "sqlite3_index_constraint_usage list"
  idxNum :: c_int

text \<open>The body of the loop, for the constraint at position \<open>i\<close>.\<close>

definition BestIndex_body :: "nat \<Rightarrow> sqlite3_index_info \<Rightarrow> sqlite3_index_info" where
  "BestIndex_body i index_info =
     (let constraint = aConstraint index_info ! i in
      if usable constraint = 0 then index_info
      else
        (let column = iColumn constraint in
         if op constraint = kFunctionConstraintVectorSearchKnn \<and> column = kColumnIndexVector then
           index_info\<lparr>idxNum := kVector,
                        aConstraintUsage := (aConstraintUsage index_info)
                          [i := (aConstraintUsage index_info ! i)\<lparr>argvIndex := 1, omit := 1\<rparr>]\<rparr>
         else if column = - 1 then
           index_info\<lparr>idxNum := kRowid,
                        aConstraintUsage := (aConstraintUsage index_info)
                          [i := (aConstraintUsage index_info ! i)\<lparr>argvIndex := 2, omit := 1\<rparr>]\<rparr>
         else index_info))"

lemma aConstraint_BestIndex_body [simp]:
  "aConstraint (BestIndex_body i index_info) = aConstraint index_info"
  by (simp add: BestIndex_body_def Let_def)

function BestIndex_loop :: "nat \<Rightarrow> sqlite3_index_info \<Rightarrow> sqlite3_index_info" where
  "BestIndex_loop i index_info =
     (if i < length (aConstraint index_info)
      then BestIndex_loop (i + 1) (BestIndex_body i index_info)
      else index_info)"
  by pat_completeness auto
termination
  by (relation "measure (\<lambda>(i, index_info). length (aConstraint index_info) - i)") auto

declare BestIndex_loop.simps [simp del]

definition BestIndex :: "sqlite3_index_info \<Rightarrow> sqlite3_index_info outcome" where
  "BestIndex index_info = Return SQLITE_OK (BestIndex_loop 0 index_info)"

subsection \<open>Values for the examples\<close>

text \<open>
  The host's values as the accessors see them: \<open>NULL\<close>, an integer, a blob, and the
  value \<open>sqlite3_result_pointer\<close> makes, which has type \<open>NULL\<close> and carries the pointer.
\<close>

definition sql_null :: sqlite3_value where
  "sql_null = \<lparr>value_type = SQLITE_NULL, value_int64 = 0, value_blob = [], value_pointer = None\<rparr>"

definition sql_integer :: "sqlite3_int64 \<Rightarrow> sqlite3_value" where
  "sql_integer i =
     \<lparr>value_type = SQLITE_INTEGER, value_int64 = i, value_blob = [], value_pointer = None\<rparr>"

definition sql_blob :: "byte list \<Rightarrow> sqlite3_value" where
  "sql_blob bs =
     \<lparr>value_type = SQLITE_BLOB, value_int64 = 0, value_blob = bs, value_pointer = None\<rparr>"

definition sql_pointer :: "string \<Rightarrow> KnnParam \<Rightarrow> sqlite3_value" where
  "sql_pointer tag p =
     \<lparr>value_type = SQLITE_NULL, value_int64 = 0, value_blob = [], value_pointer = Some (tag, p)\<rparr>"

text \<open>
  A table as \<open>Create\<close> leaves it, for a space of dimension \<open>dim\<close> that does not normalise
  and an index of capacity \<open>cap\<close>.
\<close>

definition VirtualTable_new :: "nat \<Rightarrow> nat \<Rightarrow> 'l::len VirtualTable" where
  "VirtualTable_new dim cap =
     \<lparr>zErrMsg = None, space = \<lparr>space_dimension = dim, space_normalize = False\<rparr>,
      index = \<lparr>max_elements = cap, points = []\<rparr>, rowids = {}\<rparr>"

text \<open>
  Collaborators for the examples: no normalisation, one fixed status message, and a search
  that answers the first \<open>k\<close> stored points at distance zero. The examples use tables
  that do not normalise, and no example depends on which points the search picks.
\<close>

definition plain_collaborators :: "'l::len collaborators" where
  "plain_collaborators =
     \<lparr>Normalize = (\<lambda>v. v),
      decode_error_message = (\<lambda>blob. ''invalid blob''),
      searchKnnCloserFirst = (\<lambda>pts q k. take (unat k) (map (\<lambda>(l, v). (0, l)) pts))\<rparr>"

definition one_row_table :: "64 VirtualTable" where
  "one_row_table =
     \<lparr>zErrMsg = None, space = \<lparr>space_dimension = 2, space_normalize = False\<rparr>,
      index = \<lparr>max_elements = 10, points = [(1, [1065353216, 0])]\<rparr>, rowids = {1}\<rparr>"

definition two_row_table :: "64 VirtualTable" where
  "two_row_table =
     \<lparr>zErrMsg = None, space = \<lparr>space_dimension = 2, space_normalize = False\<rparr>,
      index = \<lparr>max_elements = 2, points = [(1, [1065353216, 0]), (2, [0, 1065353216])]\<rparr>,
      rowids = {2, 1}\<rparr>"

text \<open>
  A constraint list as the planner hands it over: a rowid constraint, the function
  constraint on the vector column, an equality on the distance column, and a function
  constraint that is not usable.
\<close>

definition planner_example :: sqlite3_index_info where
  "planner_example =
     \<lparr>aConstraint =
        [\<lparr>iColumn = - 1, op = 2, usable = 1\<rparr>,
         \<lparr>iColumn = 0, op = 150, usable = 1\<rparr>,
         \<lparr>iColumn = 1, op = 2, usable = 1\<rparr>,
         \<lparr>iColumn = 0, op = 150, usable = 0\<rparr>],
      aConstraintUsage = replicate 4 \<lparr>argvIndex = 0, omit = 0\<rparr>,
      idxNum = 0\<rparr>"

subsection \<open>Notions used in the statements\<close>

text \<open>
  The two kinds of constraint that the specification of \<open>BestIndex\<close> recognises, in its
  words: a usable constraint whose operator is the function constraint, on column 0; a
  usable constraint on column -1, the rowid.
\<close>

definition knn_constraint :: "sqlite3_index_constraint \<Rightarrow> bool" where
  "knn_constraint c \<longleftrightarrow>
     usable c \<noteq> 0 \<and> op c = kFunctionConstraintVectorSearchKnn \<and> iColumn c = kColumnIndexVector"

definition rowid_constraint :: "sqlite3_index_constraint \<Rightarrow> bool" where
  "rowid_constraint c \<longleftrightarrow> usable c \<noteq> 0 \<and> iColumn c = - 1"

definition expected_usage ::
  "sqlite3_index_constraint \<Rightarrow> sqlite3_index_constraint_usage \<Rightarrow> sqlite3_index_constraint_usage" where
  "expected_usage c u =
     (if knn_constraint c then u\<lparr>argvIndex := 1, omit := 1\<rparr>
      else if rowid_constraint c then u\<lparr>argvIndex := 2, omit := 1\<rparr>
      else u)"

definition expected_idxNum :: "sqlite3_index_constraint \<Rightarrow> c_int \<Rightarrow> c_int" where
  "expected_idxNum c n =
     (if knn_constraint c then kVector else if rowid_constraint c then kRowid else n)"

fun last_idxNum :: "sqlite3_index_constraint list \<Rightarrow> c_int \<Rightarrow> c_int" where
  "last_idxNum [] n = n"
| "last_idxNum (c # cs) n = last_idxNum cs (expected_idxNum c n)"


text \<open>What a hook left in \<open>*pRowid\<close>, when it ended by a return or by an exception.\<close>

fun written_rowid :: "('a \<times> sqlite3_int64) outcome \<Rightarrow> sqlite3_int64 option" where
  "written_rowid (Return rc (vtab, p)) = Some p"
| "written_rowid (Uncaught e (vtab, p)) = Some p"
| "written_rowid AssertionFailed = None"
| "written_rowid OutOfBounds = None"

text \<open>The vector argument of an insert is a blob that decodes to the table's dimension.\<close>

definition vector_argument_ok :: "'l collaborators \<Rightarrow> 'l VirtualTable \<Rightarrow> sqlite3_value \<Rightarrow> bool" where
  "vector_argument_ok ext vtab v \<longleftrightarrow>
     value_type v = SQLITE_BLOB \<and>
     (case FromBlob ext (value_blob v) of Inl msg \<Rightarrow> False
      | Inr vector \<Rightarrow> length vector = dimension vtab)"

section \<open>Properties\<close>

subsection \<open>Auxiliary facts\<close>

lemmas example_defs =
  sql_null_def sql_integer_def sql_blob_def sql_pointer_def VirtualTable_new_def
  plain_collaborators_def

lemma sint_le_Rowid_max: "\<not> sint (r :: sqlite3_int64) > Rowid_max"
  using sint_lt [of r] by (simp add: Rowid_max_def)

lemma Eof_Cursor_new: "Eof Cursor_new"
  by (simp add: Eof_def Cursor_new_def)

subsection \<open>Column\<close>

text \<open>
  Claim C10. Whenever the cursor is at the end of its result sequence, \<open>Column\<close> returns
  \<open>SQLITE_ERROR\<close> for every column index \<open>N\<close> and writes nothing to the context: the
  test comes before the dispatch on \<open>N\<close>. A cursor as \<open>Open\<close> makes it, on which no
  \<open>Filter\<close> has succeeded, is such a cursor.
\<close>

theorem Column_at_EOF:
  "(Eof cursor \<longrightarrow> Column vtab cursor pCtx N = Return SQLITE_ERROR pCtx) \<and>
   Column vtab Cursor_new pCtx N = Return SQLITE_ERROR pCtx"
  by (simp add: Column_def Eof_def Cursor_new_def)

theorem Column_at_EOF_witness:
  "Eof \<lparr>result = [(0, 7)], current_row = 1, query_vector = [0, 0]\<rparr> \<and>
   Column (VirtualTable_new 2 10 :: 64 VirtualTable)
     \<lparr>result = [(0, 7)], current_row = 1, query_vector = [0, 0]\<rparr> None kColumnIndexDistance
     = Return SQLITE_ERROR None"
  using Column_at_EOF [of "\<lparr>result = [(0, 7)], current_row = 1, query_vector = [0, 0]\<rparr>"
      "VirtualTable_new 2 10 :: 64 VirtualTable" None kColumnIndexDistance]
  by (simp add: Eof_def)

subsection \<open>Filter\<close>

text \<open>
  Claim C7. For every index number other than \<open>kVector\<close>, and so for \<open>kRowid\<close> and for
  the 0 of a plan without constraints, \<open>Filter\<close> returns \<open>SQLITE_ERROR\<close>, sets the message
  of the table to "Invalid index number: n", and leaves the cursor as it was: a result
  sequence that was empty stays empty.
\<close>

theorem Filter_other_idxNum:
  "idx \<noteq> kVector \<Longrightarrow>
   Filter ext vtab cursor idx argv =
     Return SQLITE_ERROR
       (vtab\<lparr>zErrMsg := Some (''Invalid index number: '' @ fmt_d (sint idx))\<rparr>, cursor)"
  by (simp add: Filter_def SetZErrMsg_def)

theorem Filter_other_idxNum_witness:
  "kRowid \<noteq> kVector \<and>
   Filter plain_collaborators (VirtualTable_new 2 10 :: 64 VirtualTable) Cursor_new kRowid
       [sql_null, sql_integer 1] =
     Return SQLITE_ERROR
       ((VirtualTable_new 2 10)\<lparr>zErrMsg := Some ''Invalid index number: 2''\<rparr>, Cursor_new) \<and>
   result Cursor_new = [] \<and> Eof Cursor_new"
proof -
  have ne: "kRowid \<noteq> kVector"
    by (simp add: kRowid_def kVector_def)
  have "fmt_d (sint kRowid) = ''2''"
    by (simp add: kRowid_def fmt_d_def dec_nat.simps digit_def)
  with Filter_other_idxNum [OF ne] ne show ?thesis
    by (simp add: Cursor_new_def Eof_def)
qed

text \<open>
  Claim C2, as amended. For every call of \<open>Filter\<close> with index number \<open>kVector\<close> whose
  first argument carries no pointer of type "vector\_search\_knn\_param", \<open>Filter\<close> returns
  \<open>SQLITE_ERROR\<close>, sets the message of the table to "knn\_param() should be used for the
  2nd param of knn\_search", and leaves the cursor as it was.
\<close>

theorem Filter_without_knn_param:
  "argv \<noteq> [] \<Longrightarrow> sqlite3_value_pointer (argv ! 0) kKnnParamType = None \<Longrightarrow>
   Filter ext vtab cursor kVector argv =
     Return SQLITE_ERROR
       (vtab\<lparr>zErrMsg := Some ''knn_param() should be used for the 2nd param of knn_search''\<rparr>,
        cursor)"
  by (simp add: Filter_def SetZErrMsg_def)

theorem Filter_without_knn_param_witness:
  "[sql_pointer ''other_type'' \<lparr>knn_query_vector = [0, 0], knn_k = 1\<rparr>] \<noteq> [] \<and>
   sqlite3_value_pointer
     ([sql_pointer ''other_type'' \<lparr>knn_query_vector = [0, 0], knn_k = 1\<rparr>] ! 0) kKnnParamType = None \<and>
   Filter plain_collaborators (VirtualTable_new 2 10 :: 64 VirtualTable) Cursor_new kVector
       [sql_pointer ''other_type'' \<lparr>knn_query_vector = [0, 0], knn_k = 1\<rparr>] =
     Return SQLITE_ERROR
       ((VirtualTable_new 2 10)
          \<lparr>zErrMsg := Some ''knn_param() should be used for the 2nd param of knn_search''\<rparr>,
        Cursor_new)"
proof -
  have p: "sqlite3_value_pointer
     ([sql_pointer ''other_type'' \<lparr>knn_query_vector = [0, 0], knn_k = 1\<rparr>] ! 0) kKnnParamType = None"
    by (simp add: sqlite3_value_pointer_def sql_pointer_def kKnnParamType_def)
  from Filter_without_knn_param [OF _ p] p show ?thesis
    by simp
qed

text \<open>
  The message is not the one the claim quotes: for \<open>knn_search(v, 42)\<close> the code sets
  "should be used for the 2nd param", not "must be used as the 2nd argument".
\<close>

theorem Filter_message_counterexample:
  "Filter plain_collaborators (VirtualTable_new 2 10 :: 64 VirtualTable) Cursor_new kVector
       [sql_integer 42] =
     Return SQLITE_ERROR
       ((VirtualTable_new 2 10)
          \<lparr>zErrMsg := Some ''knn_param() should be used for the 2nd param of knn_search''\<rparr>,
        Cursor_new) \<and>
   ''knn_param() should be used for the 2nd param of knn_search''
     \<noteq> ''knn_param() must be used as the 2nd argument of knn_search''"
  by (simp add: Filter_def SetZErrMsg_def sqlite3_value_pointer_def sql_integer_def)

text \<open>
  \<open>Filter\<close> with index number \<open>kVector\<close> and a well-tagged parameter. If the dimension of
  the query vector differs from the table's, \<open>Filter\<close> returns \<open>SQLITE_ERROR\<close> with a
  message that starts "Dimension mismatch", runs no search and leaves the cursor as it
  was. If the dimensions are equal and the result sequence of the cursor is empty,
  \<open>Filter\<close> stores the query vector, normalised if the space asks for it, stores the
  result of the search and sets the position to 0. If the dimensions are equal and the
  cursor holds rows, the assertion on the result does not hold.
\<close>

lemma Filter_knn_dimension:
  assumes "argv \<noteq> []"
    and "sqlite3_value_pointer (argv ! 0) kKnnParamType = Some param"
  shows "(length (knn_query_vector param) \<noteq> dimension vtab \<longrightarrow>
      Filter ext vtab cursor kVector argv =
        Return SQLITE_ERROR
          (vtab\<lparr>zErrMsg := Some
             (''Dimension mismatch: query vector has dimension ''
                @ fmt_d_size (length (knn_query_vector param))
                @ '', but the table has dimension '' @ fmt_d_size (dimension vtab))\<rparr>,
           cursor)) \<and>
    (length (knn_query_vector param) = dimension vtab \<and> result cursor = [] \<longrightarrow>
      Filter ext vtab cursor kVector argv =
        Return SQLITE_OK
          (vtab,
           cursor\<lparr>query_vector :=
                     (if space_normalize (space vtab) then Normalize ext (knn_query_vector param)
                      else knn_query_vector param),
                   result := map (\<lambda>(d, l). (d, ucast l))
                     (searchKnnCloserFirst ext (points (index vtab))
                        (if space_normalize (space vtab) then Normalize ext (knn_query_vector param)
                         else knn_query_vector param)
                        (knn_k param)),
                   current_row := 0\<rparr>)) \<and>
    (length (knn_query_vector param) = dimension vtab \<and> result cursor \<noteq> [] \<longrightarrow>
      Filter ext vtab cursor kVector argv = AssertionFailed)"
  using assms by (simp add: Filter_def SetZErrMsg_def Let_def)

text \<open>
  Claim C8, evaluated on a second call. The table holds the one vector \<open>[1.0, 0.0]\<close> under
  rowid 1 and the query is that vector, of the table's dimension. The first \<open>Filter\<close> on
  a new cursor finds row 1 at distance 0 and sets the position to 0. The same \<open>Filter\<close>
  on the cursor it has filled does not set the position to 0: nothing has emptied the
  result, and the assertion \<open>cursor->result.empty()\<close> stops the call.
\<close>

theorem Filter_second_call:
  "Filter plain_collaborators one_row_table Cursor_new kVector
       [sql_pointer kKnnParamType \<lparr>knn_query_vector = [1065353216, 0], knn_k = 2\<rparr>] =
     Return SQLITE_OK
       (one_row_table,
        \<lparr>result = [(0, 1)], current_row = 0, query_vector = [1065353216, 0]\<rparr>) \<and>
   Filter plain_collaborators one_row_table
       \<lparr>result = [(0, 1)], current_row = 0, query_vector = [1065353216, 0]\<rparr> kVector
       [sql_pointer kKnnParamType \<lparr>knn_query_vector = [1065353216, 0], knn_k = 2\<rparr>] =
     AssertionFailed"
  by (simp add: Filter_def sqlite3_value_pointer_def sql_pointer_def dimension_def
      one_row_table_def Cursor_new_def plain_collaborators_def Let_def)

subsection \<open>Update\<close>

text \<open>
  Claim C3, as amended. For every call of \<open>Update\<close> whose arguments are not those of an
  insert (\<open>argc > 1\<close>, \<open>argv[0]\<close> null and \<open>argv[1]\<close> not null), \<open>Update\<close> returns
  \<open>SQLITE_ERROR\<close> and changes nothing but the message of the table: the index, the set
  of known rows and \<open>*pRowid\<close> stay. The message is "rowid must be specified during
  insertion" when \<open>argc > 1\<close> and \<open>argv[0]\<close> is null (so \<open>argv[1]\<close> is null), and
  "Operation not supported for now" otherwise.
\<close>

theorem Update_not_insert:
  "\<not> (length argv > 1 \<and> value_type (argv ! 0) = SQLITE_NULL \<and> value_type (argv ! 1) \<noteq> SQLITE_NULL) \<Longrightarrow>
   Update ext vtab argv pRowid =
     Return SQLITE_ERROR
       (vtab\<lparr>zErrMsg := Some
          (if length argv > 1 \<and> value_type (argv ! 0) = SQLITE_NULL
           then ''rowid must be specified during insertion''
           else ''Operation not supported for now'')\<rparr>,
        pRowid)"
  by (auto simp add: Update_def SetZErrMsg_def)

theorem Update_not_insert_witness:
  "\<not> (length [sql_integer 5] > 1 \<and> value_type ([sql_integer 5] ! 0) = SQLITE_NULL
        \<and> value_type ([sql_integer 5] ! 1) \<noteq> SQLITE_NULL) \<and>
   Update plain_collaborators (VirtualTable_new 2 10 :: 64 VirtualTable) [sql_integer 5] 0 =
     Return SQLITE_ERROR
       ((VirtualTable_new 2 10)\<lparr>zErrMsg := Some ''Operation not supported for now''\<rparr>, 0)"
  using Update_not_insert [of "[sql_integer 5]" plain_collaborators
      "VirtualTable_new 2 10 :: 64 VirtualTable" 0]
  by simp

text \<open>
  Neither message is "Operation not supported": an insert without rowid gets a message
  of its own, and a \<open>DELETE\<close> gets the longer text.
\<close>

theorem Update_message_counterexample:
  "Update plain_collaborators (VirtualTable_new 2 10 :: 64 VirtualTable)
       [sql_null, sql_null, sql_blob [0, 0, 128, 63, 0, 0, 0, 0], sql_null] 0 =
     Return SQLITE_ERROR
       ((VirtualTable_new 2 10)\<lparr>zErrMsg := Some ''rowid must be specified during insertion''\<rparr>, 0) \<and>
   ''rowid must be specified during insertion'' \<noteq> ''Operation not supported'' \<and>
   Update plain_collaborators (VirtualTable_new 2 10 :: 64 VirtualTable) [sql_integer 5] 0 =
     Return SQLITE_ERROR
       ((VirtualTable_new 2 10)\<lparr>zErrMsg := Some ''Operation not supported for now''\<rparr>, 0) \<and>
   ''Operation not supported for now'' \<noteq> ''Operation not supported''"
  by (simp add: Update_def SetZErrMsg_def sql_null_def sql_integer_def)

text \<open>
  Claim C4, as amended. For every insert whose vector argument is a blob of a length that
  is not a positive multiple of 4: when the rowid is not negative, \<open>Update\<close> returns
  \<open>SQLITE_ERROR\<close> with the message "Failed to perform insertion due to: " followed by the
  text of the decoding error; when the rowid is negative, \<open>Update\<close> returns \<open>SQLITE_ERROR\<close>
  with the message "rowid n out of range" and does not look at the blob. In both cases
  nothing of the table changes but its message: the index and the set of known rows are
  as before.
\<close>

theorem Update_bad_blob:
  assumes "length argv > 2"
    and "value_type (argv ! 0) = SQLITE_NULL"
    and "value_type (argv ! 1) \<noteq> SQLITE_NULL"
    and "value_type (argv ! 2) = SQLITE_BLOB"
    and "\<not> (0 < length (value_blob (argv ! 2)) \<and> length (value_blob (argv ! 2)) mod 4 = 0)"
  shows "(0 \<le> sint (value_int64 (argv ! 1)) \<longrightarrow>
       Update ext vtab argv pRowid =
         Return SQLITE_ERROR
           (vtab\<lparr>zErrMsg := Some (''Failed to perform insertion due to: ''
                                     @ decode_error_message ext (value_blob (argv ! 2)))\<rparr>,
            value_int64 (argv ! 1))) \<and>
    (sint (value_int64 (argv ! 1)) < 0 \<longrightarrow>
       Update ext vtab argv pRowid =
         Return SQLITE_ERROR
           (vtab\<lparr>zErrMsg := Some (''rowid '' @ fmt_d (sint (value_int64 (argv ! 1)))
                                     @ '' out of range'')\<rparr>,
            pRowid))"
proof -
  have dec: "FromBlob ext (value_blob (argv ! 2)) = Inl (decode_error_message ext (value_blob (argv ! 2)))"
    using assms(5) by (simp add: FromBlob_def)
  from assms dec show ?thesis
    by (simp add: Update_def SetZErrMsg_def sint_le_Rowid_max Let_def)
qed

theorem Update_bad_blob_witness:
  "length (value_blob ([sql_null, sql_integer 5, sql_blob [0, 0, 128, 63, 0, 0, 0], sql_null] ! 2)) = 7 \<and>
   0 \<le> sint (value_int64 ([sql_null, sql_integer 5, sql_blob [0, 0, 128, 63, 0, 0, 0], sql_null] ! 1)) \<and>
   Update plain_collaborators (VirtualTable_new 2 10 :: 64 VirtualTable)
       [sql_null, sql_integer 5, sql_blob [0, 0, 128, 63, 0, 0, 0], sql_null] 0 =
     Return SQLITE_ERROR
       ((VirtualTable_new 2 10)
          \<lparr>zErrMsg := Some ''Failed to perform insertion due to: invalid blob''\<rparr>, 5) \<and>
   sint (value_int64 ([sql_null, sql_integer (- 1), sql_blob [0, 0, 128, 63, 0, 0, 0], sql_null] ! 1)) < 0 \<and>
   Update plain_collaborators (VirtualTable_new 2 10 :: 64 VirtualTable)
       [sql_null, sql_integer (- 1), sql_blob [0, 0, 128, 63, 0, 0, 0], sql_null] 0 =
     Return SQLITE_ERROR
       ((VirtualTable_new 2 10)\<lparr>zErrMsg := Some ''rowid -1 out of range''\<rparr>, 0)"
proof -
  have m: "fmt_d (- 1) = ''-1''"
    by (simp add: fmt_d_def dec_nat.simps digit_def)
  show ?thesis
    using Update_bad_blob [of "[sql_null, sql_integer 5, sql_blob [0, 0, 128, 63, 0, 0, 0], sql_null]"
        plain_collaborators "VirtualTable_new 2 10 :: 64 VirtualTable" 0]
      Update_bad_blob [of "[sql_null, sql_integer (- 1), sql_blob [0, 0, 128, 63, 0, 0, 0], sql_null]"
        plain_collaborators "VirtualTable_new 2 10 :: 64 VirtualTable" 0] m
    by (simp add: sql_null_def sql_integer_def sql_blob_def plain_collaborators_def)
qed

text \<open>
  A 7-byte blob inserted under rowid -1 is not answered with the decoding error: the range
  check on the rowid comes first.
\<close>

theorem Update_bad_blob_counterexample:
  "Update plain_collaborators (VirtualTable_new 2 10 :: 64 VirtualTable)
       [sql_null, sql_integer (- 1), sql_blob [0, 0, 128, 63, 0, 0, 0], sql_null] 0 =
     Return SQLITE_ERROR
       ((VirtualTable_new 2 10)\<lparr>zErrMsg := Some ''rowid -1 out of range''\<rparr>, 0) \<and>
   ''rowid -1 out of range'' \<noteq>
     ''Failed to perform insertion due to: ''
       @ decode_error_message (plain_collaborators :: 64 collaborators) [0, 0, 128, 63, 0, 0, 0]"
  by (simp add: Update_def SetZErrMsg_def Let_def Rowid_max_def sql_null_def sql_integer_def
      fmt_d_def dec_nat.simps digit_def)

text \<open>
  Claim C9. For every insert with a rowid that passes the range check, \<open>Update\<close> writes
  the rowid to \<open>*pRowid\<close> before it looks at the vector argument: whatever the outcome,
  \<open>*pRowid\<close> holds the rowid, and when the vector argument is not a blob, does not decode
  or has the wrong dimension, \<open>Update\<close> returns \<open>SQLITE_ERROR\<close> with \<open>*pRowid\<close> already
  changed.
\<close>

theorem Update_writes_rowid_first:
  assumes "length argv > 2"
    and "value_type (argv ! 0) = SQLITE_NULL"
    and "value_type (argv ! 1) \<noteq> SQLITE_NULL"
    and "0 \<le> sint (value_int64 (argv ! 1))"
  shows "written_rowid (Update ext vtab argv pRowid) = Some (value_int64 (argv ! 1)) \<and>
    (\<not> vector_argument_ok ext vtab (argv ! 2) \<longrightarrow>
       (\<exists>msg. Update ext vtab argv pRowid =
          Return SQLITE_ERROR (vtab\<lparr>zErrMsg := Some msg\<rparr>, value_int64 (argv ! 1))))"
  using assms
  by (auto simp add: Update_def SetZErrMsg_def sint_le_Rowid_max Let_def vector_argument_ok_def
      split: sum.splits)

theorem Update_writes_rowid_first_witness:
  "\<not> vector_argument_ok plain_collaborators (VirtualTable_new 2 10 :: 64 VirtualTable)
       ([sql_null, sql_integer 5, sql_integer 9, sql_null] ! 2) \<and>
   Update plain_collaborators (VirtualTable_new 2 10 :: 64 VirtualTable)
       [sql_null, sql_integer 5, sql_integer 9, sql_null] 0 =
     Return SQLITE_ERROR
       ((VirtualTable_new 2 10)\<lparr>zErrMsg := Some ''vector must be of type Blob''\<rparr>, 5) \<and>
   (5 :: sqlite3_int64) \<noteq> 0"
proof -
  have "written_rowid (Update plain_collaborators (VirtualTable_new 2 10 :: 64 VirtualTable)
       [sql_null, sql_integer 5, sql_integer 9, sql_null] 0) = Some 5"
    using Update_writes_rowid_first [of "[sql_null, sql_integer 5, sql_integer 9, sql_null]"
      plain_collaborators "VirtualTable_new 2 10 :: 64 VirtualTable" 0]
    by (simp add: sql_null_def sql_integer_def)
  then show ?thesis
    by (simp add: Update_def SetZErrMsg_def sql_null_def sql_integer_def Rowid_max_def
        vector_argument_ok_def)
qed

text \<open>
  When the index is full and the label is new, \<open>addPoint\<close> throws and nothing in
  \<open>Update\<close> catches it: the call ends by the exception, with no message set and no
  error code returned.
\<close>

lemma Update_at_capacity:
  assumes "length argv > 2"
    and "value_type (argv ! 0) = SQLITE_NULL"
    and "value_type (argv ! 1) \<noteq> SQLITE_NULL"
    and "0 \<le> sint (value_int64 (argv ! 1))"
    and "value_type (argv ! 2) = SQLITE_BLOB"
    and "FromBlob ext (value_blob (argv ! 2)) = Inr vector"
    and "length vector = dimension vtab"
    and "map_of (points (index vtab)) (ucast (value_int64 (argv ! 1))) = None"
    and "max_elements (index vtab) \<le> length (points (index vtab))"
  shows "Update ext vtab argv pRowid = Uncaught CapacityExceeded (vtab, value_int64 (argv ! 1))"
  using assms by (simp add: Update_def Let_def sint_le_Rowid_max addPoint_def)

text \<open>
  Claim C1, evaluated on a table of capacity 2. The inserts of rows 1 and 2 succeed. The
  insert of row 3 leaves the index and the set of known rows unchanged, but it does not
  end by returning \<open>SQLITE_ERROR\<close> with a message: the exception of \<open>addPoint\<close> leaves
  \<open>Update\<close>, and the message of the table is still null.
\<close>

theorem Update_past_capacity:
  "Update plain_collaborators (VirtualTable_new 2 2 :: 64 VirtualTable)
       [sql_null, sql_integer 1, sql_blob [0, 0, 128, 63, 0, 0, 0, 0], sql_null] 0 =
     Return SQLITE_OK
       (\<lparr>zErrMsg = None, space = \<lparr>space_dimension = 2, space_normalize = False\<rparr>,
         index = \<lparr>max_elements = 2, points = [(1, [1065353216, 0])]\<rparr>, rowids = {1}\<rparr>, 1) \<and>
   Update plain_collaborators
       \<lparr>zErrMsg = None, space = \<lparr>space_dimension = 2, space_normalize = False\<rparr>,
         index = \<lparr>max_elements = 2, points = [(1, [1065353216, 0])]\<rparr>, rowids = {1}\<rparr>
       [sql_null, sql_integer 2, sql_blob [0, 0, 0, 0, 0, 0, 128, 63], sql_null] 1 =
     Return SQLITE_OK (two_row_table, 2) \<and>
   Update plain_collaborators two_row_table
       [sql_null, sql_integer 3, sql_blob [0, 0, 128, 63, 0, 0, 128, 63], sql_null] 2 =
     Uncaught CapacityExceeded (two_row_table, 3)"
  by (simp add: Update_def Let_def Rowid_max_def addPoint_def FromBlob_def dimension_def
      two_row_table_def example_defs)

text \<open>
  A negative rowid is rejected by the range check, and with labels of 64 bits the label
  of a rowid that passes the check is the rowid itself.
\<close>

lemma Update_negative_rowid:
  assumes "length argv > 1"
    and "value_type (argv ! 0) = SQLITE_NULL"
    and "value_type (argv ! 1) \<noteq> SQLITE_NULL"
    and "sint (value_int64 (argv ! 1)) < 0"
  shows "Update ext vtab argv pRowid =
     Return SQLITE_ERROR
       (vtab\<lparr>zErrMsg := Some (''rowid '' @ fmt_d (sint (value_int64 (argv ! 1))) @ '' out of range'')\<rparr>,
        pRowid)"
  using assms by (simp add: Update_def Let_def SetZErrMsg_def)





subsection \<open>BestIndex\<close>

lemma not_both: "knn_constraint c \<Longrightarrow> \<not> rowid_constraint c"
  by (simp add: knn_constraint_def rowid_constraint_def kColumnIndexVector_def)

lemma idxNum_BestIndex_body:
  "idxNum (BestIndex_body i index_info) =
     expected_idxNum (aConstraint index_info ! i) (idxNum index_info)"
  by (simp add: BestIndex_body_def Let_def expected_idxNum_def knn_constraint_def
      rowid_constraint_def kColumnIndexVector_def)

lemma length_usage_BestIndex_body [simp]:
  "length (aConstraintUsage (BestIndex_body i index_info)) = length (aConstraintUsage index_info)"
  by (simp add: BestIndex_body_def Let_def)

lemma usage_BestIndex_body:
  "i < length (aConstraintUsage index_info) \<Longrightarrow>
   aConstraintUsage (BestIndex_body i index_info) ! j =
     (if j = i then expected_usage (aConstraint index_info ! i) (aConstraintUsage index_info ! i)
      else aConstraintUsage index_info ! j)"
  by (simp add: BestIndex_body_def Let_def expected_usage_def knn_constraint_def
      rowid_constraint_def kColumnIndexVector_def)

lemma aConstraint_BestIndex_loop:
  "aConstraint (BestIndex_loop i index_info) = aConstraint index_info"
proof (induction i index_info rule: BestIndex_loop.induct)
  case (1 i index_info)
  then show ?case
    by (subst BestIndex_loop.simps) simp
qed

lemma length_usage_BestIndex_loop:
  "length (aConstraintUsage (BestIndex_loop i index_info)) = length (aConstraintUsage index_info)"
proof (induction i index_info rule: BestIndex_loop.induct)
  case (1 i index_info)
  then show ?case
    by (subst BestIndex_loop.simps) simp
qed

lemma usage_BestIndex_loop:
  "length (aConstraintUsage index_info) = length (aConstraint index_info) \<Longrightarrow>
   j < length (aConstraint index_info) \<Longrightarrow>
   aConstraintUsage (BestIndex_loop i index_info) ! j =
     (if i \<le> j then expected_usage (aConstraint index_info ! j) (aConstraintUsage index_info ! j)
      else aConstraintUsage index_info ! j)"
proof (induction i index_info rule: BestIndex_loop.induct)
  case (1 i index_info)
  show ?case
  proof (cases "i < length (aConstraint index_info)")
    case True
    with "1.prems" have in_range: "i < length (aConstraintUsage index_info)"
      by simp
    have "aConstraintUsage (BestIndex_loop i index_info) ! j =
            aConstraintUsage (BestIndex_loop (i + 1) (BestIndex_body i index_info)) ! j"
      using True by (subst BestIndex_loop.simps) simp
    also have "\<dots> =
        (if i + 1 \<le> j
         then expected_usage (aConstraint index_info ! j)
                (aConstraintUsage (BestIndex_body i index_info) ! j)
         else aConstraintUsage (BestIndex_body i index_info) ! j)"
      using "1.IH" [OF True] "1.prems" by simp
    also have "\<dots> =
        (if i \<le> j then expected_usage (aConstraint index_info ! j) (aConstraintUsage index_info ! j)
         else aConstraintUsage index_info ! j)"
      using in_range by (cases "j = i") (auto simp add: usage_BestIndex_body)
    finally show ?thesis .
  next
    case False
    with "1.prems" show ?thesis
      by (subst BestIndex_loop.simps) simp
  qed
qed

lemma idxNum_BestIndex_loop:
  "idxNum (BestIndex_loop i index_info) =
     last_idxNum (drop i (aConstraint index_info)) (idxNum index_info)"
proof (induction i index_info rule: BestIndex_loop.induct)
  case (1 i index_info)
  show ?case
  proof (cases "i < length (aConstraint index_info)")
    case True
    have "idxNum (BestIndex_loop i index_info) =
            idxNum (BestIndex_loop (i + 1) (BestIndex_body i index_info))"
      using True by (subst BestIndex_loop.simps) simp
    also have "\<dots> = last_idxNum (drop (i + 1) (aConstraint index_info))
                        (expected_idxNum (aConstraint index_info ! i) (idxNum index_info))"
      using "1.IH" [OF True] by (simp add: idxNum_BestIndex_body)
    also have "\<dots> = last_idxNum (aConstraint index_info ! i # drop (i + 1) (aConstraint index_info))
                        (idxNum index_info)"
      by simp
    also have "aConstraint index_info ! i # drop (i + 1) (aConstraint index_info)
                 = drop i (aConstraint index_info)"
      using True by (simp add: Cons_nth_drop_Suc)
    finally show ?thesis .
  next
    case False
    then show ?thesis
      by (subst BestIndex_loop.simps) simp
  qed
qed

lemma last_idxNum_append:
  "last_idxNum (cs @ ds) n = last_idxNum ds (last_idxNum cs n)"
  by (induction cs arbitrary: n) simp_all

lemma last_idxNum_unrecognized:
  "(\<And>c. c \<in> set cs \<Longrightarrow> \<not> knn_constraint c \<and> \<not> rowid_constraint c) \<Longrightarrow> last_idxNum cs n = n"
  by (induction cs arbitrary: n) (simp_all add: expected_idxNum_def)

lemma last_idxNum_last_recognized:
  assumes i: "i < length cs"
    and later: "\<And>j. i < j \<Longrightarrow> j < length cs \<Longrightarrow> \<not> knn_constraint (cs ! j) \<and> \<not> rowid_constraint (cs ! j)"
  shows "last_idxNum cs n = expected_idxNum (cs ! i) (last_idxNum (take i cs) n)"
proof -
  have split: "cs = take i cs @ cs ! i # drop (Suc i) cs"
    using i by (simp add: id_take_nth_drop [symmetric])
  have rest: "last_idxNum (drop (Suc i) cs) m = m" for m
  proof (rule last_idxNum_unrecognized)
    fix c
    assume "c \<in> set (drop (Suc i) cs)"
    then obtain k where k: "k < length cs - Suc i" and c: "c = drop (Suc i) cs ! k"
      by (auto simp add: in_set_conv_nth)
    from k have "Suc i + k < length cs" by simp
    moreover from this c have "c = cs ! (Suc i + k)" by simp
    ultimately show "\<not> knn_constraint c \<and> \<not> rowid_constraint c"
      using later [of "Suc i + k"] by simp
  qed
  have "last_idxNum cs n = last_idxNum (take i cs @ cs ! i # drop (Suc i) cs) n"
    using split by simp
  also have "\<dots> = expected_idxNum (cs ! i) (last_idxNum (take i cs) n)"
    by (simp add: last_idxNum_append rest)
  finally show ?thesis .
qed

text \<open>
  Claim C6. \<open>BestIndex\<close> returns \<open>SQLITE_OK\<close> and leaves the constraints as they were. The
  usage entry of a usable function constraint on column 0 gets \<open>argvIndex = 1\<close> and
  \<open>omit = 1\<close>, the usage entry of a usable constraint on column -1 gets \<open>argvIndex = 2\<close>
  and \<open>omit = 1\<close>, and every other usage entry is unchanged. \<open>idxNum\<close> is \<open>kVector\<close> or
  \<open>kRowid\<close> after the kind of the last recognised constraint of the list, and unchanged
  when the list has none.
\<close>

theorem BestIndex_marks_constraints:
  assumes "length (aConstraintUsage index_info) = length (aConstraint index_info)"
  shows "\<exists>out. BestIndex index_info = Return SQLITE_OK out \<and>
     aConstraint out = aConstraint index_info \<and>
     length (aConstraintUsage out) = length (aConstraint index_info) \<and>
     (\<forall>i < length (aConstraint index_info).
        aConstraintUsage out ! i =
          (if knn_constraint (aConstraint index_info ! i)
           then (aConstraintUsage index_info ! i)\<lparr>argvIndex := 1, omit := 1\<rparr>
           else if rowid_constraint (aConstraint index_info ! i)
           then (aConstraintUsage index_info ! i)\<lparr>argvIndex := 2, omit := 1\<rparr>
           else aConstraintUsage index_info ! i)) \<and>
     (\<forall>i < length (aConstraint index_info).
        (knn_constraint (aConstraint index_info ! i) \<or> rowid_constraint (aConstraint index_info ! i)) \<and>
        (\<forall>j. i < j \<and> j < length (aConstraint index_info) \<longrightarrow>
           \<not> knn_constraint (aConstraint index_info ! j) \<and>
           \<not> rowid_constraint (aConstraint index_info ! j)) \<longrightarrow>
        idxNum out = (if knn_constraint (aConstraint index_info ! i) then kVector else kRowid)) \<and>
     ((\<forall>i < length (aConstraint index_info).
         \<not> knn_constraint (aConstraint index_info ! i) \<and>
         \<not> rowid_constraint (aConstraint index_info ! i)) \<longrightarrow>
      idxNum out = idxNum index_info)"
proof -
  let ?out = "BestIndex_loop 0 index_info"
  let ?cs = "aConstraint index_info"
  have ret: "BestIndex index_info = Return SQLITE_OK ?out"
    by (simp add: BestIndex_def)
  have cs: "aConstraint ?out = ?cs"
    by (rule aConstraint_BestIndex_loop)
  have len: "length (aConstraintUsage ?out) = length ?cs"
    using assms by (simp add: length_usage_BestIndex_loop)
  have usage: "\<forall>i < length ?cs.
        aConstraintUsage ?out ! i =
          (if knn_constraint (?cs ! i)
           then (aConstraintUsage index_info ! i)\<lparr>argvIndex := 1, omit := 1\<rparr>
           else if rowid_constraint (?cs ! i)
           then (aConstraintUsage index_info ! i)\<lparr>argvIndex := 2, omit := 1\<rparr>
           else aConstraintUsage index_info ! i)"
    using assms by (simp add: usage_BestIndex_loop expected_usage_def)
  have idx: "idxNum ?out = last_idxNum ?cs (idxNum index_info)"
    by (simp add: idxNum_BestIndex_loop)
  have last: "\<forall>i < length ?cs.
        (knn_constraint (?cs ! i) \<or> rowid_constraint (?cs ! i)) \<and>
        (\<forall>j. i < j \<and> j < length ?cs \<longrightarrow>
           \<not> knn_constraint (?cs ! j) \<and> \<not> rowid_constraint (?cs ! j)) \<longrightarrow>
        idxNum ?out = (if knn_constraint (?cs ! i) then kVector else kRowid)"
  proof (intro allI impI)
    fix i
    assume i: "i < length ?cs"
      and h: "(knn_constraint (?cs ! i) \<or> rowid_constraint (?cs ! i)) \<and>
        (\<forall>j. i < j \<and> j < length ?cs \<longrightarrow>
           \<not> knn_constraint (?cs ! j) \<and> \<not> rowid_constraint (?cs ! j))"
    from h have "last_idxNum ?cs (idxNum index_info) =
        expected_idxNum (?cs ! i) (last_idxNum (take i ?cs) (idxNum index_info))"
      by (intro last_idxNum_last_recognized [OF i]) simp
    with h idx show "idxNum ?out = (if knn_constraint (?cs ! i) then kVector else kRowid)"
      by (auto simp add: expected_idxNum_def)
  qed
  have none: "(\<forall>i < length ?cs. \<not> knn_constraint (?cs ! i) \<and> \<not> rowid_constraint (?cs ! i)) \<longrightarrow>
      idxNum ?out = idxNum index_info"
  proof
    assume h: "\<forall>i < length ?cs. \<not> knn_constraint (?cs ! i) \<and> \<not> rowid_constraint (?cs ! i)"
    have "last_idxNum ?cs (idxNum index_info) = idxNum index_info"
    proof (rule last_idxNum_unrecognized)
      fix c
      assume "c \<in> set ?cs"
      then obtain k where "k < length ?cs" and "c = ?cs ! k"
        by (auto simp add: in_set_conv_nth)
      with h show "\<not> knn_constraint c \<and> \<not> rowid_constraint c"
        by simp
    qed
    with idx show "idxNum ?out = idxNum index_info"
      by simp
  qed
  from ret cs len usage last none show ?thesis
    by blast
qed

theorem BestIndex_marks_constraints_witness:
  "length (aConstraintUsage planner_example) = length (aConstraint planner_example) \<and>
   (\<exists>out. BestIndex planner_example = Return SQLITE_OK out \<and>
      aConstraintUsage out ! 0 = \<lparr>argvIndex = 2, omit = 1\<rparr> \<and>
      aConstraintUsage out ! 1 = \<lparr>argvIndex = 1, omit = 1\<rparr> \<and>
      aConstraintUsage out ! 2 = \<lparr>argvIndex = 0, omit = 0\<rparr> \<and>
      aConstraintUsage out ! 3 = \<lparr>argvIndex = 0, omit = 0\<rparr> \<and>
      idxNum out = kVector)"
proof -
  let ?cs = "aConstraint planner_example"
  have len: "length (aConstraintUsage planner_example) = length ?cs"
    by (simp add: planner_example_def)
  have n: "length ?cs = 4"
    by (simp add: planner_example_def)
  have c0: "rowid_constraint (?cs ! 0)" "\<not> knn_constraint (?cs ! 0)"
    and c1: "knn_constraint (?cs ! 1)"
    and c2: "\<not> knn_constraint (?cs ! 2)" "\<not> rowid_constraint (?cs ! 2)"
    and c3: "\<not> knn_constraint (?cs ! 3)" "\<not> rowid_constraint (?cs ! 3)"
    by (simp_all add: planner_example_def knn_constraint_def rowid_constraint_def
        kFunctionConstraintVectorSearchKnn_def kColumnIndexVector_def)
  have later: "\<forall>j. 1 < j \<and> j < length ?cs \<longrightarrow>
      \<not> knn_constraint (?cs ! j) \<and> \<not> rowid_constraint (?cs ! j)"
  proof (intro allI impI)
    fix j :: nat
    assume "1 < j \<and> j < length ?cs"
    with n have "j = 2 \<or> j = 3" by auto
    with c2 c3 show "\<not> knn_constraint (?cs ! j) \<and> \<not> rowid_constraint (?cs ! j)"
      by auto
  qed
  from BestIndex_marks_constraints [OF len] obtain out where
    ret: "BestIndex planner_example = Return SQLITE_OK out"
    and usage: "\<forall>i < length ?cs.
        aConstraintUsage out ! i =
          (if knn_constraint (?cs ! i)
           then (aConstraintUsage planner_example ! i)\<lparr>argvIndex := 1, omit := 1\<rparr>
           else if rowid_constraint (?cs ! i)
           then (aConstraintUsage planner_example ! i)\<lparr>argvIndex := 2, omit := 1\<rparr>
           else aConstraintUsage planner_example ! i)"
    and last: "\<forall>i < length ?cs.
        (knn_constraint (?cs ! i) \<or> rowid_constraint (?cs ! i)) \<and>
        (\<forall>j. i < j \<and> j < length ?cs \<longrightarrow>
           \<not> knn_constraint (?cs ! j) \<and> \<not> rowid_constraint (?cs ! j)) \<longrightarrow>
        idxNum out = (if knn_constraint (?cs ! i) then kVector else kRowid)"
    by blast
  have u: "aConstraintUsage planner_example ! i = \<lparr>argvIndex = 0, omit = 0\<rparr>" if "i < 4" for i
    using that by (simp add: planner_example_def)
  have "aConstraintUsage out ! 0 = \<lparr>argvIndex = 2, omit = 1\<rparr>"
    using usage [rule_format, of 0] n c0 u [of 0] by simp
  moreover have "aConstraintUsage out ! 1 = \<lparr>argvIndex = 1, omit = 1\<rparr>"
    using usage [rule_format, of 1] n c1 u [of 1] by simp
  moreover have "aConstraintUsage out ! 2 = \<lparr>argvIndex = 0, omit = 0\<rparr>"
    using usage [rule_format, of 2] n c2 u [of 2] by simp
  moreover have "aConstraintUsage out ! 3 = \<lparr>argvIndex = 0, omit = 0\<rparr>"
    using usage [rule_format, of 3] n c3 u [of 3] by simp
  moreover have "idxNum out = kVector"
    using last [rule_format, of 1] n c1 later by simp
  ultimately show ?thesis
    using len ret by blast
qed

end
